theory Spec2Isabelle
  imports Main "HOL-Library.Sublist"
begin

section \<open>pytest-alembic: the migration runner (src/pytest_alembic/runner.py)\<close>

text \<open>
  The runner drives two external collaborators, the Command Executor and the
  Connection Executor, and the History class. None of the three is part of
  runner.py. The model therefore takes their behaviour as a parameter (the
  record \<open>collaborators\<close>) and records every call the runner makes on them in a
  trace, so that the order and the number of the calls can be stated.
\<close>

subsection \<open>Values\<close>

type_synonym revision = string
type_synonym engine = string
type_synonym kwargs = "(string \<times> string) list"

text \<open>The exceptions that can travel through the runner.\<close>

datatype exn =
    RevisionSuccess
  | UnknownRevisionError string
  | ParseError string
  | AttributeError string
  | TypeError string
  | ToolError string

text \<open>
  What \<open>run_command\<close> hands back: Python's \<open>None\<close>, a sequence of strings
  (history lines, heads, current) or some other object (revision metadata).
\<close>

datatype pyval = PyNone | PyList "string list" | PyObj string

text \<open>
  A seed-data payload, \<open>Union[Dict, List]\<close>: one mapping of column to value, or
  a sequence of such rows. Python's truth value of either is "not empty"; that
  of \<open>None\<close>, which \<open>dict.get\<close> returns for a missing key, is false.
\<close>

datatype payload =
    PDict "(string \<times> string) list"
  | PList "(string \<times> string) list list"

fun truthy :: "payload \<Rightarrow> bool" where
  "truthy (PDict kvs) = (kvs \<noteq> [])"
| "truthy (PList rows) = (rows \<noteq> [])"

text \<open>
  \<open>str.strip()\<close> without argument removes the leading and the trailing
  whitespace. A character is a code point below 256; the list holds those for
  which \<open>str.isspace\<close> is true.
\<close>

definition whitespace :: "char list" where
  "whitespace = [CHR 0x09, CHR 0x0A, CHR 0x0B, CHR 0x0C, CHR 0x0D,
                 CHR 0x1C, CHR 0x1D, CHR 0x1E, CHR 0x1F, CHR 0x20,
                 CHR 0x85, CHR 0xA0]"

definition isspace :: "char \<Rightarrow> bool" where
  "isspace c = (c \<in> set whitespace)"

definition strip :: "string \<Rightarrow> string" where
  "strip s = rev (dropWhile isspace (rev (dropWhile isspace s)))"

subsection \<open>The data model of runner.py\<close>

datatype command_executor = CommandExecutor
datatype connection_executor = ConnectionExecutor engine

text \<open>The dataclass \<open>MigrationContext\<close>, field by field.\<close>

record migration_context =
  command_executor :: command_executor
  revision_upgrade_data :: "revision \<rightharpoonup> payload"
  connection_executor :: "connection_executor option"

text \<open>
  The configuration is a dict; runner.py reads one key of it,
  \<open>"revision_upgrade_data"\<close>, which may be missing.
\<close>

record config =
  cfg_revision_upgrade_data :: "(revision \<rightharpoonup> payload) option"
  cfg_rest :: kwargs

text \<open>
  Modelled from the spec: the class \<open>AlembicHistory\<close> (pytest_alembic/history.py)
  is missing. A History is the parsed sequence of (revision, parent) pairs, the
  parent absent for a root.
\<close>

type_synonym history = "(revision \<times> revision option) list"

text \<open>
  Modelled from the spec: \<open>AlembicHistory.validate_revision\<close> is missing. It
  fails with \<open>UnknownRevisionError\<close> if the revision is not present in the
  History and is not \<open>"base"\<close>.
\<close>

definition validate_revision :: "history \<Rightarrow> revision \<Rightarrow> exn + unit" where
  "validate_revision h revision =
     (if revision = ''base'' \<or> revision \<in> fst ` set h then Inr ()
      else Inl (UnknownRevisionError revision))"

subsection \<open>Calls on the collaborators\<close>

text \<open>
  One event per call the runner makes on a collaborator. \<open>Close\<close> stands for a
  release of the command or connection environment; no statement of runner.py
  produces it.
\<close>

datatype event =
    FromConfig config
  | Configure engine
  | RunCommand string "string list" kwargs
  | TableInsert revision payload
  | Insert revision string payload
  | Close

text \<open>
  The state: the context object \<open>self\<close>, the trace of the calls made so far, and
  the state of the world behind the collaborators (the migration tool and the
  database), of which the runner knows nothing.
\<close>

record 'x state =
  this :: migration_context
  trace :: "event list"
  ext :: 'x

text \<open>The same without a context object: outside the \<open>with\<close> block.\<close>

record 'x world =
  calls :: "event list"
  env :: 'x

text \<open>
  A callback for \<open>process_revision_directives\<close>: it receives the argument triple
  (context, revision, directives) as \<open>'d\<close> and acts on the world.
\<close>

type_synonym ('x, 'd) hook = "'d \<Rightarrow> 'x \<Rightarrow> (exn + pyval) \<times> 'x"

text \<open>
  The behaviour of the code that is not in runner.py. The history queries other
  than \<open>validate_revision\<close> are parameters as well: the runner only passes their
  results on.
\<close>

record ('x, 'd) collaborators =
  executor_from_config :: "config \<Rightarrow> 'x \<Rightarrow> (exn + unit) \<times> 'x"
  configure :: "engine \<Rightarrow> 'x \<Rightarrow> (exn + unit) \<times> 'x"
  run :: "string \<Rightarrow> string list \<Rightarrow> kwargs \<Rightarrow> ('x, 'd) hook option \<Rightarrow> 'x \<Rightarrow> (exn + pyval) \<times> 'x"
  table_insert :: "engine \<Rightarrow> revision \<Rightarrow> payload \<Rightarrow> 'x \<Rightarrow> (exn + pyval) \<times> 'x"
  call :: "engine \<Rightarrow> revision \<Rightarrow> string \<Rightarrow> payload \<Rightarrow> 'x \<Rightarrow> (exn + pyval) \<times> 'x"
  parse :: "string list \<Rightarrow> exn + history"
  revision_range :: "history \<Rightarrow> revision \<Rightarrow> revision option \<Rightarrow> exn + revision list"
  previous_revision :: "history \<Rightarrow> revision \<Rightarrow> exn + revision"
  next_revision :: "history \<Rightarrow> revision \<Rightarrow> exn + revision option"

subsection \<open>Statements in sequence, with exceptions\<close>

type_synonym ('s, 'a) action = "'s \<Rightarrow> (exn + 'a) \<times> 's"

definition ret :: "'a \<Rightarrow> ('s, 'a) action" where
  "ret v s = (Inr v, s)"

definition raise :: "exn \<Rightarrow> ('s, 'a) action" where
  "raise e s = (Inl e, s)"

definition from_result :: "exn + 'a \<Rightarrow> ('s, 'a) action" where
  "from_result r s = (r, s)"

definition and_then :: "('s, 'a) action \<Rightarrow> ('a \<Rightarrow> ('s, 'b) action) \<Rightarrow> ('s, 'b) action" where
  "and_then m f s = (case m s of (Inl e, s') \<Rightarrow> (Inl e, s') | (Inr v, s') \<Rightarrow> f v s')"

text \<open>A call on a collaborator: it is recorded, then it acts on the world.\<close>

definition collaborator_call :: "event \<Rightarrow> ('x, 'a) action \<Rightarrow> ('x state, 'a) action" where
  "collaborator_call ev f s =
     (case f (ext s) of (r, x') \<Rightarrow> (r, s\<lparr>trace := trace s @ [ev], ext := x'\<rparr>))"

definition run_command ::
  "('x, 'd) collaborators \<Rightarrow> string \<Rightarrow> string list \<Rightarrow> kwargs \<Rightarrow> ('x, 'd) hook option
     \<Rightarrow> ('x state, pyval) action" where
  "run_command E name args kw fn = collaborator_call (RunCommand name args kw) (run E name args kw fn)"

subsection \<open>RevisionSuccess\<close>

text \<open>
  \<open>RevisionSuccess.process_revision_directives(fn)\<close>: the wrapped function calls
  \<open>fn\<close> when there is one and then raises the sentinel.
\<close>

definition process_revision_directives :: "('x, 'd) hook option \<Rightarrow> ('x, 'd) hook" where
  "process_revision_directives fn d x =
     (case fn of
        None \<Rightarrow> (Inl RevisionSuccess, x)
      | Some f \<Rightarrow>
          (case f d x of
             (Inl e, x') \<Rightarrow> (Inl e, x')
           | (Inr _, x') \<Rightarrow> (Inl RevisionSuccess, x')))"

subsection \<open>MigrationContext\<close>

definition from_config :: "config \<Rightarrow> command_executor \<Rightarrow> migration_context" where
  "from_config cfg ce =
     \<lparr>command_executor = ce,
      revision_upgrade_data =
        (case cfg_revision_upgrade_data cfg of None \<Rightarrow> Map.empty | Some m \<Rightarrow> m),
      connection_executor = None\<rparr>"

definition generate_revision ::
  "('x, 'd) collaborators \<Rightarrow> ('x, 'd) hook option \<Rightarrow> kwargs \<Rightarrow> ('x state, pyval) action" where
  "generate_revision E prd kw s =
     (let fn = process_revision_directives prd in
      case run_command E ''revision'' [] kw (Some fn) s of
        (Inl RevisionSuccess, s') \<Rightarrow> (Inr PyNone, s')
      | (Inl e, s') \<Rightarrow> (Inl e, s')
      | (Inr v, s') \<Rightarrow> (Inr v, s'))"

text \<open>\<open>tuple(raw_history)\<close> needs an iterable.\<close>

definition history :: "('x, 'd) collaborators \<Rightarrow> ('x state, history) action" where
  "history E =
     and_then (run_command E ''history'' [] [] None) (\<lambda>raw_history.
       case raw_history of
         PyList ls \<Rightarrow> from_result (parse E ls)
       | PyNone \<Rightarrow> raise (TypeError ''tuple'')
       | PyObj _ \<Rightarrow> raise (TypeError ''tuple''))"

definition heads :: "('x, 'd) collaborators \<Rightarrow> ('x state, pyval) action" where
  "heads E = run_command E ''heads'' [] [] None"

text \<open>\<open>if current:\<close> is false for \<open>None\<close> and for an empty sequence.\<close>

definition current :: "('x, 'd) collaborators \<Rightarrow> ('x state, revision) action" where
  "current E =
     and_then (run_command E ''current'' [] [] None) (\<lambda>current.
       case current of
         PyNone \<Rightarrow> ret ''base''
       | PyList [] \<Rightarrow> ret ''base''
       | PyList (c # _) \<Rightarrow> ret (strip c)
       | PyObj _ \<Rightarrow> raise (TypeError ''subscript''))"

definition raw_command ::
  "('x, 'd) collaborators \<Rightarrow> string \<Rightarrow> string list \<Rightarrow> kwargs \<Rightarrow> ('x state, pyval) action" where
  "raw_command E name args kw = run_command E name args kw None"

text \<open>
  One turn of the loop of \<open>managed_upgrade\<close>. With no Connection Executor,
  \<open>self.connection_executor.table_insert\<close> is an attribute of \<open>None\<close>.
\<close>

definition upgrade_step :: "('x, 'd) collaborators \<Rightarrow> revision \<Rightarrow> ('x state, pyval) action" where
  "upgrade_step E next_rev s =
     (let upgrade_data = revision_upgrade_data (this s) next_rev in
      and_then
        (case upgrade_data of
           None \<Rightarrow> ret PyNone
         | Some data \<Rightarrow>
             if truthy data then
               (case connection_executor (this s) of
                  None \<Rightarrow> raise (AttributeError ''table_insert'')
                | Some (ConnectionExecutor eng) \<Rightarrow>
                    collaborator_call (TableInsert next_rev data)
                      (table_insert E eng next_rev data))
             else ret PyNone)
        (\<lambda>_. raw_command E ''upgrade'' [next_rev] []) s)"

primrec upgrade_loop :: "('x, 'd) collaborators \<Rightarrow> revision list \<Rightarrow> ('x state, pyval) action" where
  "upgrade_loop E [] = ret PyNone"
| "upgrade_loop E (next_rev # revs) = and_then (upgrade_step E next_rev) (\<lambda>_. upgrade_loop E revs)"

definition managed_upgrade ::
  "('x, 'd) collaborators \<Rightarrow> revision option \<Rightarrow> ('x state, pyval) action" where
  "managed_upgrade E dest_revision =
     and_then (current E) (\<lambda>cur.
     and_then (history E) (\<lambda>h.
     and_then (from_result (revision_range E h cur dest_revision)) (\<lambda>revs.
       upgrade_loop E revs)))"

definition migrate_up_before :: "('x, 'd) collaborators \<Rightarrow> revision \<Rightarrow> ('x state, pyval) action" where
  "migrate_up_before E revision =
     and_then (history E) (\<lambda>h.
     and_then (from_result (previous_revision E h revision)) (\<lambda>preceeding_revision.
       managed_upgrade E (Some preceeding_revision)))"

definition migrate_up_to :: "('x, 'd) collaborators \<Rightarrow> revision \<Rightarrow> ('x state, pyval) action" where
  "migrate_up_to E revision = managed_upgrade E (Some revision)"

text \<open>
  \<open>self.history.next_revision(self.current)\<close>: the receiver \<open>self.history\<close> is
  evaluated before the argument \<open>self.current\<close>.
\<close>

definition migrate_up_one :: "('x, 'd) collaborators \<Rightarrow> ('x state, pyval) action" where
  "migrate_up_one E =
     and_then (history E) (\<lambda>h.
     and_then (current E) (\<lambda>cur.
     and_then (from_result (next_revision E h cur)) (\<lambda>revision.
       managed_upgrade E revision)))"

text \<open>
  \<open>self.raw_command("downgrade", self.get_hash_before(next_revision))\<close>: the class
  has the three fields and the methods of this section and no
  \<open>get_hash_before\<close>, so evaluating the argument raises \<open>AttributeError\<close> and
  \<open>raw_command\<close> is not called.
\<close>

definition migrate_down_before :: "('x, 'd) collaborators \<Rightarrow> revision \<Rightarrow> ('x state, pyval) action" where
  "migrate_down_before E revision =
     and_then (history E) (\<lambda>h.
     and_then (from_result (next_revision E h revision)) (\<lambda>next_rev.
       raise (AttributeError ''get_hash_before'')))"

definition migrate_down_to :: "('x, 'd) collaborators \<Rightarrow> revision \<Rightarrow> ('x state, pyval) action" where
  "migrate_down_to E revision =
     and_then (history E) (\<lambda>h.
     and_then (from_result (validate_revision h revision)) (\<lambda>_.
       raw_command E ''downgrade'' [revision] []))"

definition migrate_down_one :: "('x, 'd) collaborators \<Rightarrow> ('x state, pyval) action" where
  "migrate_down_one E = raw_command E ''downgrade'' [''-1''] []"

definition roundtrip_next_revision :: "('x, 'd) collaborators \<Rightarrow> ('x state, pyval) action" where
  "roundtrip_next_revision E =
     and_then (migrate_up_one E) (\<lambda>_.
     and_then (migrate_down_one E) (\<lambda>_.
       migrate_up_one E))"

text \<open>
  \<open>self.connection_executor(revision=self.current, ...)\<close>: the arguments are
  evaluated before the call, so \<open>current\<close> runs even when the callee is \<open>None\<close>.
\<close>

definition insert_into ::
  "('x, 'd) collaborators \<Rightarrow> string \<Rightarrow> payload \<Rightarrow> ('x state, pyval) action" where
  "insert_into E table data s =
     and_then (current E) (\<lambda>cur.
       case connection_executor (this s) of
         None \<Rightarrow> raise (TypeError ''call'')
       | Some (ConnectionExecutor eng) \<Rightarrow>
           collaborator_call (Insert cur table data) (call E eng cur table data)) s"

subsection \<open>The context manager\<close>

definition enter :: "migration_context \<Rightarrow> 'x world \<Rightarrow> 'x state" where
  "enter ctx w = \<lparr>this = ctx, trace = calls w, ext = env w\<rparr>"

definition leave :: "'x state \<Rightarrow> 'x world" where
  "leave s = \<lparr>calls = trace s, env = ext s\<rparr>"

definition world_call :: "event \<Rightarrow> ('x, 'a) action \<Rightarrow> ('x world, 'a) action" where
  "world_call ev f w =
     (case f (env w) of (r, x') \<Rightarrow> (r, \<lparr>calls = calls w @ [ev], env = x'\<rparr>))"

text \<open>
  \<open>runner\<close> is a generator under \<open>contextlib.contextmanager\<close>: the statements
  before \<open>yield\<close> run on entry, the body of the \<open>with\<close> block runs at the
  \<open>yield\<close>, and the statements after it run on exit. There is no statement
  after either \<open>yield\<close> and no \<open>try\<close> around it, so an exception of the body
  leaves the generator as it came. \<open>if engine:\<close> is false for \<open>None\<close>.
\<close>

definition runner ::
  "('x, 'd) collaborators \<Rightarrow> config \<Rightarrow> engine option \<Rightarrow> ('x state, 'a) action
     \<Rightarrow> ('x world, 'a) action" where
  "runner E cfg eng body w =
     (case world_call (FromConfig cfg) (executor_from_config E cfg) w of
        (Inl e, w1) \<Rightarrow> (Inl e, w1)
      | (Inr _, w1) \<Rightarrow>
          (let migration_context = from_config cfg CommandExecutor in
           case eng of
             Some engine \<Rightarrow>
               (case world_call (Configure engine) (configure E engine) w1 of
                  (Inl e, w2) \<Rightarrow> (Inl e, w2)
                | (Inr _, w2) \<Rightarrow>
                    (case body (enter (migration_context
                                  \<lparr>connection_executor := Some (ConnectionExecutor engine)\<rparr>) w2) of
                       (r, s) \<Rightarrow> (r, leave s)))
           | None \<Rightarrow>
               (case body (enter migration_context w1) of (r, s) \<Rightarrow> (r, leave s))))"

subsection \<open>The calls a managed upgrade is to make\<close>

text \<open>
  The seed data that counts for a revision: a payload registered under it that
  is not empty.
\<close>

definition seed :: "migration_context \<Rightarrow> revision \<Rightarrow> payload option" where
  "seed ctx r =
     (case revision_upgrade_data ctx r of
        None \<Rightarrow> None
      | Some data \<Rightarrow> if truthy data then Some data else None)"

text \<open>
  What the spec asks of one revision of the range: the insert of its seed data,
  if it has any, and then the "upgrade" command to that revision.
\<close>

definition upgrade_call :: "revision \<Rightarrow> event" where
  "upgrade_call r = RunCommand ''upgrade'' [r] []"


text \<open>
  Two states that differ at most in the context object, and there at most in
  payloads that do not count.
\<close>

definition alike :: "'x state \<Rightarrow> 'x state \<Rightarrow> bool" where
  "alike s t =
     (trace s = trace t \<and> ext s = ext t \<and>
      connection_executor (this s) = connection_executor (this t) \<and>
      seed (this s) = seed (this t))"

subsection \<open>The seed-data map as a shared object\<close>

text \<open>
  \<open>from_config\<close> does not copy the dict it finds in the configuration: the
  context refers to the very object the configuration holds, and
  \<open>CommandExecutor.from_config(config)\<close> was given that configuration. Nor does
  \<open>managed_upgrade\<close> copy a payload: \<open>table_insert\<close> is handed the object stored
  in the dict. So the collaborators can write what the context reads. Where
  that matters the dict is part of the world the collaborators act on: the
  world is the dict and the rest. A payload is identified with its place in
  the dict, so a \<open>table_insert\<close> that changes the object it was handed for a
  revision changes \<open>seed_data\<close> at that revision. In a state over such a world
  the field \<open>revision_upgrade_data\<close> of the context keeps what the dict held
  when the context was made, and the operations read the dict itself.
\<close>

record 'y shared =
  seed_data :: "revision \<rightharpoonup> payload"
  behind :: 'y


text \<open>
  The operations that read the seed-data map, over a shared dict. The others
  (\<open>generate_revision\<close>, \<open>history\<close>, \<open>heads\<close>, \<open>current\<close>, \<open>raw_command\<close>, the
  downgrades, \<open>insert_into\<close>) do not read it and are the definitions above, taken
  at a world of this kind.
\<close>

definition upgrade_step_shared ::
  "('y shared, 'd) collaborators \<Rightarrow> revision \<Rightarrow> ('y shared state, pyval) action" where
  "upgrade_step_shared E next_rev s =
     (let upgrade_data = seed_data (ext s) next_rev in
      and_then
        (case upgrade_data of
           None \<Rightarrow> ret PyNone
         | Some data \<Rightarrow>
             if truthy data then
               (case connection_executor (this s) of
                  None \<Rightarrow> raise (AttributeError ''table_insert'')
                | Some (ConnectionExecutor eng) \<Rightarrow>
                    collaborator_call (TableInsert next_rev data)
                      (table_insert E eng next_rev data))
             else ret PyNone)
        (\<lambda>_. raw_command E ''upgrade'' [next_rev] []) s)"

primrec upgrade_loop_shared ::
  "('y shared, 'd) collaborators \<Rightarrow> revision list \<Rightarrow> ('y shared state, pyval) action" where
  "upgrade_loop_shared E [] = ret PyNone"
| "upgrade_loop_shared E (next_rev # revs) =
     and_then (upgrade_step_shared E next_rev) (\<lambda>_. upgrade_loop_shared E revs)"

definition managed_upgrade_shared ::
  "('y shared, 'd) collaborators \<Rightarrow> revision option \<Rightarrow> ('y shared state, pyval) action" where
  "managed_upgrade_shared E dest_revision =
     and_then (current E) (\<lambda>cur.
     and_then (history E) (\<lambda>h.
     and_then (from_result (revision_range E h cur dest_revision)) (\<lambda>revs.
       upgrade_loop_shared E revs)))"





text \<open>
  Collaborators that leave the dict as it is in every call the runner makes on
  them, the "revision" command being run with the callback \<open>fn\<close>.
\<close>

definition leaves_seed_data ::
  "('y shared, 'd) collaborators \<Rightarrow> ('y shared, 'd) hook option \<Rightarrow> bool" where
  "leaves_seed_data E fn =
     (\<forall>w. (\<forall>name args kw. seed_data (snd (run E name args kw None w)) = seed_data w) \<and>
          (\<forall>kw. seed_data (snd (run E ''revision'' [] kw (Some (process_revision_directives fn)) w))
                  = seed_data w) \<and>
          (\<forall>eng r data. seed_data (snd (table_insert E eng r data w)) = seed_data w) \<and>
          (\<forall>eng r table data. seed_data (snd (call E eng r table data w)) = seed_data w))"

subsection \<open>A sample environment\<close>

text \<open>
  A small migration tool to run the operations on: two revisions in a line,
  \<open>R1\<close> and then \<open>R2\<close>. The world behind it is the list of the revisions applied
  so far and the rows inserted so far. It serves the examples below and is no
  part of the model of runner.py.
\<close>

record db =
  applied :: "revision list"
  inserted :: "(revision \<times> payload) list"

definition sample_history :: history where
  "sample_history = [(''R2'', Some ''R1''), (''R1'', None)]"

definition sample_range :: "history \<Rightarrow> revision \<Rightarrow> revision option \<Rightarrow> exn + revision list" where
  "sample_range h cur dest =
     (case dest of
        None \<Rightarrow> Inl (UnknownRevisionError ''None'')
      | Some d \<Rightarrow>
          (case validate_revision h d of
             Inl e \<Rightarrow> Inl e
           | Inr _ \<Rightarrow>
               (let rs = rev (map fst h);
                    later = (if cur = ''base'' then rs else drop 1 (dropWhile (\<lambda>r. r \<noteq> cur) rs))
                in Inr (if d \<in> set later then takeWhile (\<lambda>r. r \<noteq> d) later @ [d] else []))))"

definition sample_run ::
  "string \<Rightarrow> string list \<Rightarrow> kwargs \<Rightarrow> (db, string) hook option \<Rightarrow> db \<Rightarrow> (exn + pyval) \<times> db" where
  "sample_run name args kw fn x =
     (if name = ''current'' then
        (Inr (PyList (if applied x = [] then [] else [last (applied x) @ '' (head)\<newline>''])), x)
      else if name = ''history'' then (Inr (PyList [''R2 -> R1'', ''R1 -> base'']), x)
      else if name = ''heads'' then (Inr (PyList [''R2'']), x)
      else if name = ''upgrade'' then (Inr PyNone, x\<lparr>applied := applied x @ args\<rparr>)
      else if name = ''downgrade'' then
        (Inr PyNone, x\<lparr>applied := takeWhile (\<lambda>r. r \<notin> set args) (applied x) @ args\<rparr>)
      else if name = ''revision'' then
        (case fn of
           None \<Rightarrow> (Inr (PyObj ''script''), x)
         | Some f \<Rightarrow> f ''directives'' x)
      else (Inl (ToolError name), x))"

definition sample_tool :: "(db, string) collaborators" where
  "sample_tool =
     \<lparr>executor_from_config = (\<lambda>cfg x. (Inr (), x)),
      configure = (\<lambda>eng x. (Inr (), x)),
      run = sample_run,
      table_insert = (\<lambda>eng r data x. (Inr PyNone, x\<lparr>inserted := inserted x @ [(r, data)]\<rparr>)),
      call = (\<lambda>eng r table data x. (Inr PyNone, x\<lparr>inserted := inserted x @ [(r, data)]\<rparr>)),
      parse = (\<lambda>ls. if ls = [''R2 -> R1'', ''R1 -> base''] then Inr sample_history
                   else Inl (ParseError ''history'')),
      revision_range = sample_range,
      previous_revision = (\<lambda>h r. Inr (if r = ''R2'' then ''R1'' else ''base'')),
      next_revision = (\<lambda>h r. Inr (if r = ''base'' then Some ''R1''
                                else if r = ''R1'' then Some ''R2'' else None))\<rparr>"

text \<open>A tool whose every command fails, and one that reports no revision.\<close>

definition broken_tool :: "(db, string) collaborators" where
  "broken_tool = sample_tool\<lparr>run := (\<lambda>name args kw fn x. (Inl (ToolError name), x))\<rparr>"

definition no_db :: db where
  "no_db = \<lparr>applied = [], inserted = []\<rparr>"

definition at_R1 :: db where
  "at_R1 = \<lparr>applied = [''R1''], inserted = []\<rparr>"

definition at_R2 :: db where
  "at_R2 = \<lparr>applied = [''R1'', ''R2''], inserted = []\<rparr>"

definition sample_config :: config where
  "sample_config =
     \<lparr>cfg_revision_upgrade_data = Some [''R2'' \<mapsto> PList [[(''id'', ''1'')]], ''R1'' \<mapsto> PList []],
      cfg_rest = []\<rparr>"

definition sample_context :: migration_context where
  "sample_context =
     \<lparr>command_executor = CommandExecutor,
      revision_upgrade_data = [''R2'' \<mapsto> PList [[(''id'', ''1'')]], ''R1'' \<mapsto> PList []],
      connection_executor = Some (ConnectionExecutor ''sqlite'')\<rparr>"

definition start :: "migration_context \<Rightarrow> db \<Rightarrow> db state" where
  "start ctx x = \<lparr>this = ctx, trace = [], ext = x\<rparr>"

text \<open>A callback that notes the arguments it was called with.\<close>

definition noting :: "(string list, string) hook" where
  "noting d x = (Inr (PyObj ''ignored''), x @ [d])"




section \<open>Properties\<close>

subsection \<open>Sequencing and strip\<close>

lemma and_then_Inr: "m s = (Inr v, s') \<Longrightarrow> and_then m f s = f v s'"
  by (simp add: and_then_def)

lemma and_then_Inl: "m s = (Inl e, s') \<Longrightarrow> and_then m f s = (Inl e, s')"
  by (simp add: and_then_def)

lemma strip_decomposes:
  "\<exists>l r. c = l @ strip c @ r \<and> set l \<subseteq> set whitespace \<and> set r \<subseteq> set whitespace"
proof -
  let ?l = "takeWhile isspace c"
  let ?m = "dropWhile isspace c"
  let ?r = "rev (takeWhile isspace (rev ?m))"
  have "?m = strip c @ ?r"
    unfolding strip_def
    by (metis rev_append rev_rev_ident takeWhile_dropWhile_id)
  then have "c = ?l @ strip c @ ?r" by (metis takeWhile_dropWhile_id)
  moreover have "set ?l \<subseteq> set whitespace"
    using set_takeWhileD isspace_def by fastforce
  moreover have "set ?r \<subseteq> set whitespace"
    using set_takeWhileD isspace_def by fastforce
  ultimately show ?thesis by blast
qed

lemma strip_ends:
  "strip c = [] \<or> (\<not> isspace (hd (strip c)) \<and> \<not> isspace (last (strip c)))"
proof (cases "strip c = []")
  case True then show ?thesis by simp
next
  case False
  let ?m = "dropWhile isspace c"
  let ?k = "dropWhile isspace (rev ?m)"
  have k: "?k \<noteq> []" using False by (simp add: strip_def)
  then have "\<not> isspace (hd ?k)" using hd_dropWhile by blast
  then have l: "\<not> isspace (last (strip c))"
    using k by (simp add: strip_def last_rev)
  have m: "?m \<noteq> []" using k by (metis dropWhile.simps(1) rev.simps(1))
  then have hm: "\<not> isspace (hd ?m)" using hd_dropWhile by blast
  have "?m = strip c @ rev (takeWhile isspace (rev ?m))"
    unfolding strip_def
    by (metis rev_append rev_rev_ident takeWhile_dropWhile_id)
  then have "hd ?m = hd (strip c)" using False by (metis hd_append2)
  with hm l show ?thesis by simp
qed

lemma run_command_trace:
  "trace (snd (run_command E name args kw fn s)) = trace s @ [RunCommand name args kw]"
  by (simp add: run_command_def collaborator_call_def split: prod.splits)

subsection \<open>The wrapped callback\<close>

text \<open>
  C5. Whatever callback is supplied, and also when none is, the function that
  \<open>RevisionSuccess.process_revision_directives\<close> returns, called with
  (context, revision, directives), calls the callback once with these arguments
  (the world after it is the world after that one call) and then raises
  \<open>RevisionSuccess\<close>, whatever value the callback returned.
\<close>

theorem process_revision_directives_calls_then_raises:
  "process_revision_directives None d x = (Inl RevisionSuccess, x) \<and>
   (\<forall>f v x'. f d x = (Inr v, x') \<longrightarrow>
      process_revision_directives (Some f) d x = (Inl RevisionSuccess, x'))"
  by (simp add: process_revision_directives_def)

theorem process_revision_directives_witness:
  "noting ''directives'' [] = (Inr (PyObj ''ignored''), [''directives'']) \<and>
   process_revision_directives (Some noting) ''directives'' [] = (Inl RevisionSuccess, [''directives''])"
proof -
  have h: "noting ''directives'' [] = (Inr (PyObj ''ignored''), [''directives''])"
    by (simp add: noting_def)
  with process_revision_directives_calls_then_raises [of "''directives''" "[]"]
  have "process_revision_directives (Some noting) ''directives'' [] = (Inl RevisionSuccess, [''directives''])"
    by blast
  with h show ?thesis by simp
qed

text \<open>A callback that returns nothing but raises ends the wrapped function there.\<close>

lemma process_revision_directives_callback_raises:
  "f d x = (Inl e, x') \<Longrightarrow> process_revision_directives (Some f) d x = (Inl e, x')"
  by (simp add: process_revision_directives_def)

subsection \<open>generate_revision\<close>

text \<open>
  C4. \<open>generate_revision\<close> never ends with \<open>RevisionSuccess\<close>: when the
  "revision" command raises the sentinel it returns \<open>None\<close>, and when the
  command raises anything else it raises the same, in the same state.
\<close>

theorem generate_revision_catches_the_sentinel_only:
  "fst (generate_revision E prd kw s) \<noteq> Inl RevisionSuccess \<and>
   (\<forall>s'. run_command E ''revision'' [] kw (Some (process_revision_directives prd)) s
            = (Inl RevisionSuccess, s') \<longrightarrow>
          generate_revision E prd kw s = (Inr PyNone, s')) \<and>
   (\<forall>e s'. e \<noteq> RevisionSuccess \<longrightarrow>
          run_command E ''revision'' [] kw (Some (process_revision_directives prd)) s
            = (Inl e, s') \<longrightarrow>
          generate_revision E prd kw s = (Inl e, s'))"
  by (auto simp: generate_revision_def Let_def split: prod.splits sum.splits exn.splits)

lemma sample_revision:
  "run_command sample_tool ''revision'' [] [] (Some (process_revision_directives None)) (start sample_context no_db)
     = (Inl RevisionSuccess, \<lparr>this = sample_context, trace = [RunCommand ''revision'' [] []], ext = no_db\<rparr>)"
  by (simp add: run_command_def collaborator_call_def sample_tool_def sample_run_def
      process_revision_directives_def start_def)

lemma broken_revision:
  "run_command broken_tool ''revision'' [] [] (Some (process_revision_directives None)) (start sample_context no_db)
     = (Inl (ToolError ''revision''), \<lparr>this = sample_context, trace = [RunCommand ''revision'' [] []], ext = no_db\<rparr>)"
  by (simp add: run_command_def collaborator_call_def broken_tool_def sample_tool_def start_def)

theorem generate_revision_witness:
  "generate_revision sample_tool None [] (start sample_context no_db)
     = (Inr PyNone, \<lparr>this = sample_context, trace = [RunCommand ''revision'' [] []], ext = no_db\<rparr>) \<and>
   generate_revision broken_tool None [] (start sample_context no_db)
     = (Inl (ToolError ''revision''),
        \<lparr>this = sample_context, trace = [RunCommand ''revision'' [] []], ext = no_db\<rparr>)"
  using generate_revision_catches_the_sentinel_only [of sample_tool None "[]" "start sample_context no_db"]
    generate_revision_catches_the_sentinel_only [of broken_tool None "[]" "start sample_context no_db"]
    sample_revision broken_revision
  by simp

subsection \<open>current\<close>

text \<open>
  C6. \<open>current\<close> runs the "current" command once. When the command returns a
  non-empty sequence, the result is its first element without the whitespace
  around it: the element is the result between two runs of whitespace, and the
  result neither starts nor ends with whitespace. When the command returns an
  empty sequence, or \<open>None\<close>, the result is \<open>"base"\<close>.
\<close>

theorem current_first_line_stripped_or_base:
  "trace (snd (current E s)) = trace s @ [RunCommand ''current'' [] []] \<and>
   (\<forall>c cs s'. run_command E ''current'' [] [] None s = (Inr (PyList (c # cs)), s') \<longrightarrow>
      current E s = (Inr (strip c), s') \<and>
      (\<exists>l r. c = l @ strip c @ r \<and> set l \<subseteq> set whitespace \<and> set r \<subseteq> set whitespace) \<and>
      (strip c = [] \<or> \<not> isspace (hd (strip c)) \<and> \<not> isspace (last (strip c)))) \<and>
   (\<forall>s'. run_command E ''current'' [] [] None s = (Inr (PyList []), s') \<longrightarrow>
      current E s = (Inr ''base'', s')) \<and>
   (\<forall>s'. run_command E ''current'' [] [] None s = (Inr PyNone, s') \<longrightarrow>
      current E s = (Inr ''base'', s'))"
proof -
  have a: "trace (snd (current E s)) = trace s @ [RunCommand ''current'' [] []]"
    using run_command_trace [of E "''current''" "[]" "[]" None s]
    by (auto simp: current_def and_then_def ret_def raise_def
        split: prod.splits sum.splits pyval.splits list.splits)
  have b: "current E s = (Inr (strip c), s')"
    if "run_command E ''current'' [] [] None s = (Inr (PyList (c # cs)), s')" for c cs s'
    using that by (simp add: current_def and_then_def ret_def)
  have c: "current E s = (Inr ''base'', s')"
    if "run_command E ''current'' [] [] None s = (Inr (PyList []), s')" for s'
    using that by (simp add: current_def and_then_def ret_def)
  have d: "current E s = (Inr ''base'', s')"
    if "run_command E ''current'' [] [] None s = (Inr PyNone, s')" for s'
    using that by (simp add: current_def and_then_def ret_def)
  show ?thesis
    using a b c d strip_decomposes strip_ends by blast
qed

lemma sample_current_R1:
  "run_command sample_tool ''current'' [] [] None (start sample_context at_R1)
     = (Inr (PyList [''R1 (head)\<newline>'']),
        \<lparr>this = sample_context, trace = [RunCommand ''current'' [] []], ext = at_R1\<rparr>)"
  by (simp add: run_command_def collaborator_call_def sample_tool_def sample_run_def start_def at_R1_def)

lemma sample_current_none:
  "run_command sample_tool ''current'' [] [] None (start sample_context no_db)
     = (Inr (PyList []),
        \<lparr>this = sample_context, trace = [RunCommand ''current'' [] []], ext = no_db\<rparr>)"
  by (simp add: run_command_def collaborator_call_def sample_tool_def sample_run_def start_def no_db_def)

lemma strip_head_line: "strip ''R1 (head)\<newline>'' = ''R1 (head)''"
  by (simp add: strip_def isspace_def whitespace_def)

theorem current_witness:
  "current sample_tool (start sample_context at_R1)
     = (Inr ''R1 (head)'', \<lparr>this = sample_context, trace = [RunCommand ''current'' [] []], ext = at_R1\<rparr>) \<and>
   current sample_tool (start sample_context no_db)
     = (Inr ''base'', \<lparr>this = sample_context, trace = [RunCommand ''current'' [] []], ext = no_db\<rparr>)"
  using current_first_line_stripped_or_base [of sample_tool "start sample_context at_R1"]
    current_first_line_stripped_or_base [of sample_tool "start sample_context no_db"]
    sample_current_R1 sample_current_none strip_head_line
  by simp

subsection \<open>Downgrades\<close>

lemma history_trace:
  "trace (snd (history E s)) = trace s @ [RunCommand ''history'' [] []]"
  using run_command_trace [of E "''history''" "[]" "[]" None s]
  by (auto simp: history_def and_then_def from_result_def raise_def
      split: prod.splits sum.splits pyval.splits)

text \<open>
  C7. \<open>migrate_down_to\<close> reads the History and validates the revision. When the
  revision is in the History (or is \<open>"base"\<close>) it then issues one "downgrade"
  command, to that revision: the calls it makes are the "history" query and
  that command. When the revision is not in the History and is not \<open>"base"\<close> it
  raises \<open>UnknownRevisionError\<close> in the state the "history" query left: no
  downgrade command is issued.
\<close>

theorem migrate_down_to_validates_then_downgrades:
  "(\<forall>h s1. history E s = (Inr h, s1) \<longrightarrow> (revision = ''base'' \<or> revision \<in> fst ` set h) \<longrightarrow>
      migrate_down_to E revision s = raw_command E ''downgrade'' [revision] [] s1 \<and>
      trace (snd (migrate_down_to E revision s))
        = trace s @ [RunCommand ''history'' [] [], RunCommand ''downgrade'' [revision] []]) \<and>
   (\<forall>h s1. history E s = (Inr h, s1) \<longrightarrow> revision \<noteq> ''base'' \<longrightarrow> revision \<notin> fst ` set h \<longrightarrow>
      migrate_down_to E revision s = (Inl (UnknownRevisionError revision), s1) \<and>
      trace s1 = trace s @ [RunCommand ''history'' [] []])"
proof -
  have ok: "migrate_down_to E revision s = raw_command E ''downgrade'' [revision] [] s1"
    if "history E s = (Inr h, s1)" "revision = ''base'' \<or> revision \<in> fst ` set h" for h s1
    using that by (simp add: migrate_down_to_def and_then_def from_result_def validate_revision_def)
  have tr: "trace s1 = trace s @ [RunCommand ''history'' [] []]"
    if "history E s = (Inr h, s1)" for h s1
    using history_trace [of E s] that by simp
  have ok_trace: "trace (snd (migrate_down_to E revision s))
        = trace s @ [RunCommand ''history'' [] [], RunCommand ''downgrade'' [revision] []]"
    if "history E s = (Inr h, s1)" "revision = ''base'' \<or> revision \<in> fst ` set h" for h s1
    using ok [OF that] tr [OF that(1)]
      run_command_trace [of E "''downgrade''" "[revision]" "[]" None s1]
    by (simp add: raw_command_def)
  have bad: "migrate_down_to E revision s = (Inl (UnknownRevisionError revision), s1)"
    if "history E s = (Inr h, s1)" "revision \<noteq> ''base''" "revision \<notin> fst ` set h" for h s1
    using that by (simp add: migrate_down_to_def and_then_def from_result_def validate_revision_def)
  show ?thesis using ok ok_trace bad tr by blast
qed

lemma sample_history_at_R2:
  "history sample_tool (start sample_context at_R2)
     = (Inr sample_history, \<lparr>this = sample_context, trace = [RunCommand ''history'' [] []], ext = at_R2\<rparr>)"
  by (simp add: history_def and_then_def from_result_def run_command_def collaborator_call_def
      sample_tool_def sample_run_def start_def)

lemma sample_downgrade_R1:
  "raw_command sample_tool ''downgrade'' [''R1''] []
     \<lparr>this = sample_context, trace = [RunCommand ''history'' [] []], ext = at_R2\<rparr>
   = (Inr PyNone, \<lparr>this = sample_context,
         trace = [RunCommand ''history'' [] [], RunCommand ''downgrade'' [''R1''] []], ext = at_R1\<rparr>)"
  by (simp add: raw_command_def run_command_def collaborator_call_def
      sample_tool_def sample_run_def at_R2_def at_R1_def)

theorem migrate_down_to_witness:
  "migrate_down_to sample_tool ''R1'' (start sample_context at_R2)
     = (Inr PyNone, \<lparr>this = sample_context,
         trace = [RunCommand ''history'' [] [], RunCommand ''downgrade'' [''R1''] []], ext = at_R1\<rparr>) \<and>
   migrate_down_to sample_tool ''R9'' (start sample_context at_R2)
     = (Inl (UnknownRevisionError ''R9''),
        \<lparr>this = sample_context, trace = [RunCommand ''history'' [] []], ext = at_R2\<rparr>)"
proof -
  have v: "''R1'' \<in> fst ` set sample_history" by (simp add: sample_history_def)
  have n: "''R9'' \<noteq> ''base''" "''R9'' \<notin> fst ` set sample_history" by (simp_all add: sample_history_def)
  from migrate_down_to_validates_then_downgrades [of sample_tool "start sample_context at_R2" "''R1''"]
    sample_history_at_R2 v
  have "migrate_down_to sample_tool ''R1'' (start sample_context at_R2)
      = raw_command sample_tool ''downgrade'' [''R1''] []
          \<lparr>this = sample_context, trace = [RunCommand ''history'' [] []], ext = at_R2\<rparr>"
    by blast
  moreover
  from migrate_down_to_validates_then_downgrades [of sample_tool "start sample_context at_R2" "''R9''"]
    sample_history_at_R2 n
  have "migrate_down_to sample_tool ''R9'' (start sample_context at_R2)
     = (Inl (UnknownRevisionError ''R9''),
        \<lparr>this = sample_context, trace = [RunCommand ''history'' [] []], ext = at_R2\<rparr>)"
    by blast
  ultimately show ?thesis using sample_downgrade_R1 by simp
qed

text \<open>
  \<open>migrate_down_before\<close> always ends with an exception, and the one call it makes
  is the "history" query.
\<close>

lemma migrate_down_before_never_downgrades:
  "(\<exists>e. fst (migrate_down_before E revision s) = Inl e) \<and>
   trace (snd (migrate_down_before E revision s)) = trace s @ [RunCommand ''history'' [] []]"
  using history_trace [of E s]
  by (auto simp: migrate_down_before_def and_then_def from_result_def raise_def
      split: prod.splits sum.splits)

text \<open>
  C2. With \<open>R1\<close> and \<open>R2\<close> applied, \<open>migrate_down_before("R1")\<close> should issue one
  "downgrade" command to \<open>next_revision("R1")\<close>, which is \<open>R2\<close>. It raises
  \<open>AttributeError\<close> instead and issues no downgrade command.
\<close>

theorem migrate_down_before_raises_AttributeError:
  "migrate_down_before sample_tool ''R1'' (start sample_context at_R2)
     = (Inl (AttributeError ''get_hash_before''),
        \<lparr>this = sample_context, trace = [RunCommand ''history'' [] []], ext = at_R2\<rparr>)"
  by (simp add: migrate_down_before_def and_then_def from_result_def raise_def sample_history_at_R2)
     (simp add: sample_tool_def raise_def)

subsection \<open>The runner context\<close>

text \<open>
  C3, as the code has it. Entering the context creates the command executor
  from the configuration and the context object from both; with an engine it
  also configures the executor with the engine and binds a Connection Executor
  to the context. Leaving the context does nothing: the outcome of the runner
  is the outcome of the body, an exception included, and the world it leaves is
  the world the body left.
\<close>

theorem runner_is_entry_then_body:
  "executor_from_config E cfg (env w) = (Inr u, x1) \<Longrightarrow>
   runner E cfg None body w =
     (let s = \<lparr>this = from_config cfg CommandExecutor, trace = calls w @ [FromConfig cfg], ext = x1\<rparr>
      in (fst (body s), leave (snd (body s)))) \<and>
   (\<forall>engine u' x2. configure E engine x1 = (Inr u', x2) \<longrightarrow>
      runner E cfg (Some engine) body w =
        (let s = \<lparr>this = (from_config cfg CommandExecutor)
                          \<lparr>connection_executor := Some (ConnectionExecutor engine)\<rparr>,
                  trace = calls w @ [FromConfig cfg, Configure engine], ext = x2\<rparr>
         in (fst (body s), leave (snd (body s)))))"
  by (auto simp: runner_def world_call_def enter_def Let_def split: prod.splits)

text \<open>
  C3, as the spec has it, fails: a command that fails inside the context leaves
  the context with its exception, and the calls made are those of the entry and
  of the body; nothing is closed.
\<close>

theorem runner_releases_nothing:
  "runner sample_tool sample_config (Some ''sqlite'') (raw_command sample_tool ''vacuum'' [] [])
      \<lparr>calls = [], env = no_db\<rparr>
     = (Inl (ToolError ''vacuum''),
        \<lparr>calls = [FromConfig sample_config, Configure ''sqlite'', RunCommand ''vacuum'' [] []],
         env = no_db\<rparr>) \<and>
   Close \<notin> set (calls (snd (runner sample_tool sample_config (Some ''sqlite'')
                (raw_command sample_tool ''vacuum'' [] []) \<lparr>calls = [], env = no_db\<rparr>)))"
proof -
  have "runner sample_tool sample_config (Some ''sqlite'') (raw_command sample_tool ''vacuum'' [] [])
      \<lparr>calls = [], env = no_db\<rparr>
     = (Inl (ToolError ''vacuum''),
        \<lparr>calls = [FromConfig sample_config, Configure ''sqlite'', RunCommand ''vacuum'' [] []],
         env = no_db\<rparr>)"
    by (simp add: runner_def world_call_def enter_def leave_def sample_tool_def sample_run_def
        raw_command_def run_command_def collaborator_call_def)
  then show ?thesis by simp
qed

theorem runner_witness:
  "runner sample_tool sample_config None (raw_command sample_tool ''vacuum'' [] [])
      \<lparr>calls = [], env = no_db\<rparr>
     = (Inl (ToolError ''vacuum''),
        \<lparr>calls = [FromConfig sample_config, RunCommand ''vacuum'' [] []], env = no_db\<rparr>) \<and>
   runner sample_tool sample_config (Some ''sqlite'') (current sample_tool)
      \<lparr>calls = [], env = at_R1\<rparr>
     = (Inr ''R1 (head)'',
        \<lparr>calls = [FromConfig sample_config, Configure ''sqlite'', RunCommand ''current'' [] []],
         env = at_R1\<rparr>)"
proof -
  have a: "executor_from_config sample_tool sample_config (env \<lparr>calls = [], env = no_db\<rparr>) = (Inr (), no_db)"
    by (simp add: sample_tool_def)
  have b: "executor_from_config sample_tool sample_config (env \<lparr>calls = [], env = at_R1\<rparr>) = (Inr (), at_R1)"
    by (simp add: sample_tool_def)
  have c: "configure sample_tool ''sqlite'' at_R1 = (Inr (), at_R1)"
    by (simp add: sample_tool_def)
  have d: "raw_command sample_tool ''vacuum'' [] []
        \<lparr>this = from_config sample_config CommandExecutor, trace = [FromConfig sample_config], ext = no_db\<rparr>
      = (Inl (ToolError ''vacuum''), \<lparr>this = from_config sample_config CommandExecutor,
           trace = [FromConfig sample_config, RunCommand ''vacuum'' [] []], ext = no_db\<rparr>)"
    by (simp add: raw_command_def run_command_def collaborator_call_def sample_tool_def sample_run_def)
  have e: "current sample_tool
        \<lparr>this = (from_config sample_config CommandExecutor)
                   \<lparr>connection_executor := Some (ConnectionExecutor ''sqlite'')\<rparr>,
         trace = [FromConfig sample_config, Configure ''sqlite''], ext = at_R1\<rparr>
      = (Inr ''R1 (head)'', \<lparr>this = (from_config sample_config CommandExecutor)
                   \<lparr>connection_executor := Some (ConnectionExecutor ''sqlite'')\<rparr>,
           trace = [FromConfig sample_config, Configure ''sqlite'', RunCommand ''current'' [] []],
           ext = at_R1\<rparr>)"
    by (simp add: current_def and_then_def ret_def run_command_def collaborator_call_def
        sample_tool_def sample_run_def at_R1_def strip_head_line)
  from runner_is_entry_then_body [OF a, of "raw_command sample_tool ''vacuum'' [] []"] d
  have "runner sample_tool sample_config None (raw_command sample_tool ''vacuum'' [] [])
      \<lparr>calls = [], env = no_db\<rparr>
     = (Inl (ToolError ''vacuum''),
        \<lparr>calls = [FromConfig sample_config, RunCommand ''vacuum'' [] []], env = no_db\<rparr>)"
    by (simp add: leave_def)
  moreover
  from runner_is_entry_then_body [OF b, of "current sample_tool"] c
  have "runner sample_tool sample_config (Some ''sqlite'') (current sample_tool)
      \<lparr>calls = [], env = at_R1\<rparr>
     = (let s = \<lparr>this = (from_config sample_config CommandExecutor)
                          \<lparr>connection_executor := Some (ConnectionExecutor ''sqlite'')\<rparr>,
                  trace = calls \<lparr>calls = [], env = at_R1\<rparr> @ [FromConfig sample_config, Configure ''sqlite''], ext = at_R1\<rparr>
         in (fst (current sample_tool s), leave (snd (current sample_tool s))))"
    by blast
  with e have "runner sample_tool sample_config (Some ''sqlite'') (current sample_tool)
      \<lparr>calls = [], env = at_R1\<rparr>
     = (Inr ''R1 (head)'',
        \<lparr>calls = [FromConfig sample_config, Configure ''sqlite'', RunCommand ''current'' [] []],
         env = at_R1\<rparr>)"
    by (simp add: leave_def)
  ultimately show ?thesis by simp
qed

subsection \<open>The context object stays as it is\<close>

lemma and_then_this:
  assumes "\<And>s. this (snd (m s)) = this s" and "\<And>v s. this (snd (f v s)) = this s"
  shows "this (snd (and_then m f s)) = this s"
proof (cases "m s")
  case (Pair r s')
  with assms(1) [of s] have t: "this s' = this s" by simp
  show ?thesis
  proof (cases r)
    case (Inl e)
    with Pair t show ?thesis by (simp add: and_then_def)
  next
    case (Inr v)
    with Pair t assms(2) [of v s'] show ?thesis by (simp add: and_then_def)
  qed
qed

lemma collaborator_call_this: "this (snd (collaborator_call ev f s)) = this s"
  by (simp add: collaborator_call_def split: prod.splits)

lemma run_command_this: "this (snd (run_command E name args kw fn s)) = this s"
  by (simp add: run_command_def collaborator_call_this)

lemma raw_command_this: "this (snd (raw_command E name args kw s)) = this s"
  by (simp add: raw_command_def run_command_this)

lemma ret_this: "this (snd (ret v s)) = this s"
  by (simp add: ret_def)

lemma raise_this: "this (snd (raise e s)) = this s"
  by (simp add: raise_def)

lemma from_result_this: "this (snd (from_result r s)) = this s"
  by (simp add: from_result_def)

lemma generate_revision_this: "this (snd (generate_revision E prd kw s)) = this s"
  using run_command_this [of E "''revision''" "[]" kw "Some (process_revision_directives prd)" s]
  by (auto simp: generate_revision_def Let_def split: prod.splits sum.splits exn.splits)

lemma history_this: "this (snd (history E s)) = this s"
  unfolding history_def
  by (rule and_then_this) (simp_all add: run_command_this from_result_this raise_this split: pyval.splits)

lemma heads_this: "this (snd (heads E s)) = this s"
  by (simp add: heads_def run_command_this)

lemma current_this: "this (snd (current E s)) = this s"
  unfolding current_def
  by (rule and_then_this) (simp_all add: run_command_this ret_this raise_this split: pyval.splits list.splits)

lemma upgrade_step_this: "this (snd (upgrade_step E r s)) = this s"
  unfolding upgrade_step_def Let_def
  by (rule and_then_this)
     (simp_all add: raw_command_this ret_this raise_this collaborator_call_this
        split: option.splits connection_executor.splits)

lemma upgrade_loop_this: "this (snd (upgrade_loop E revs s)) = this s"
proof (induction revs arbitrary: s)
  case Nil
  show ?case by (simp add: ret_this)
next
  case (Cons r revs)
  show ?case
    unfolding upgrade_loop.simps
    by (rule and_then_this) (simp_all add: upgrade_step_this Cons.IH)
qed

lemma managed_upgrade_this: "this (snd (managed_upgrade E dest s)) = this s"
  unfolding managed_upgrade_def
  by (intro and_then_this) (simp_all add: current_this history_this from_result_this upgrade_loop_this)

lemma migrate_up_before_this: "this (snd (migrate_up_before E revision s)) = this s"
  unfolding migrate_up_before_def
  by (intro and_then_this) (simp_all add: history_this from_result_this managed_upgrade_this)

lemma migrate_up_one_this: "this (snd (migrate_up_one E s)) = this s"
  unfolding migrate_up_one_def
  by (intro and_then_this) (simp_all add: current_this history_this from_result_this managed_upgrade_this)

lemma migrate_down_before_this: "this (snd (migrate_down_before E revision s)) = this s"
  unfolding migrate_down_before_def
  by (intro and_then_this) (simp_all add: history_this from_result_this raise_this)

lemma migrate_down_to_this: "this (snd (migrate_down_to E revision s)) = this s"
  unfolding migrate_down_to_def
  by (intro and_then_this) (simp_all add: history_this from_result_this raw_command_this)

lemma migrate_down_one_this: "this (snd (migrate_down_one E s)) = this s"
  by (simp add: migrate_down_one_def raw_command_this)

lemma roundtrip_next_revision_this: "this (snd (roundtrip_next_revision E s)) = this s"
  unfolding roundtrip_next_revision_def
  by (intro and_then_this) (simp_all add: migrate_up_one_this migrate_down_one_this)

lemma insert_into_this: "this (snd (insert_into E table data s)) = this s"
  unfolding insert_into_def
  by (rule and_then_this)
     (simp_all add: current_this raise_this collaborator_call_this
        split: option.splits connection_executor.splits)

subsection \<open>The seed-data map under the collaborators\<close>

lemma and_then_seed_data:
  assumes "\<And>s. seed_data (ext (snd (m s))) = seed_data (ext s)"
    and "\<And>v s. seed_data (ext (snd (f v s))) = seed_data (ext s)"
  shows "seed_data (ext (snd (and_then m f s))) = seed_data (ext s)"
proof (cases "m s")
  case (Pair r s')
  with assms(1) [of s] have t: "seed_data (ext s') = seed_data (ext s)" by simp
  show ?thesis
  proof (cases r)
    case (Inl e)
    with Pair t show ?thesis by (simp add: and_then_def)
  next
    case (Inr v)
    with Pair t assms(2) [of v s'] show ?thesis by (simp add: and_then_def)
  qed
qed

lemma collaborator_call_seed_data:
  assumes "\<And>w. seed_data (snd (f w)) = seed_data w"
  shows "seed_data (ext (snd (collaborator_call ev f s))) = seed_data (ext s)"
  using assms [of "ext s"] by (auto simp: collaborator_call_def split: prod.splits)

lemma pure_seed_data:
  "seed_data (ext (snd (ret v s))) = seed_data (ext s)"
  "seed_data (ext (snd (raise e s))) = seed_data (ext s)"
  "seed_data (ext (snd (from_result r s))) = seed_data (ext s)"
  by (simp_all add: ret_def raise_def from_result_def)

lemma run_command_seed_data:
  "leaves_seed_data E fn \<Longrightarrow>
   seed_data (ext (snd (run_command E name args kw None s))) = seed_data (ext s)"
  unfolding run_command_def
  by (rule collaborator_call_seed_data) (simp add: leaves_seed_data_def)

lemma raw_command_seed_data:
  "leaves_seed_data E fn \<Longrightarrow>
   seed_data (ext (snd (raw_command E name args kw s))) = seed_data (ext s)"
  by (simp add: raw_command_def run_command_seed_data)


lemma history_seed_data:
  "leaves_seed_data E fn \<Longrightarrow> seed_data (ext (snd (history E s))) = seed_data (ext s)"
  unfolding history_def
  by (rule and_then_seed_data)
     (simp_all add: run_command_seed_data pure_seed_data split: pyval.splits)


lemma current_seed_data:
  "leaves_seed_data E fn \<Longrightarrow> seed_data (ext (snd (current E s))) = seed_data (ext s)"
  unfolding current_def
  by (rule and_then_seed_data)
     (simp_all add: run_command_seed_data pure_seed_data split: pyval.splits list.splits)

lemma table_insert_seed_data:
  "leaves_seed_data E fn \<Longrightarrow>
   seed_data (ext (snd (collaborator_call ev (table_insert E eng r data) s))) = seed_data (ext s)"
  by (rule collaborator_call_seed_data) (simp add: leaves_seed_data_def)

lemma upgrade_step_shared_seed_data:
  assumes "leaves_seed_data E fn"
  shows "seed_data (ext (snd (upgrade_step_shared E r s))) = seed_data (ext s)"
  unfolding upgrade_step_shared_def Let_def
  by (rule and_then_seed_data)
     (simp_all add: raw_command_seed_data [OF assms] table_insert_seed_data [OF assms] pure_seed_data
        split: option.splits connection_executor.splits)

















text \<open>
  Where the collaborators leave the dict alone and the dict holds what it held
  when the context was made, a managed upgrade over the shared dict is the
  managed upgrade of the first model.
\<close>

lemma upgrade_step_shared_is_upgrade_step:
  "seed_data (ext s) = revision_upgrade_data (this s) \<Longrightarrow>
   upgrade_step_shared E r s = upgrade_step E r s"
  by (simp add: upgrade_step_shared_def upgrade_step_def)

lemma upgrade_loop_shared_is_upgrade_loop:
  assumes "leaves_seed_data E fn"
  shows "seed_data (ext s) = revision_upgrade_data (this s) \<Longrightarrow>
         upgrade_loop_shared E revs s = upgrade_loop E revs s"
proof (induction revs arbitrary: s)
  case Nil
  show ?case by simp
next
  case (Cons r revs)
  obtain res s1 where st: "upgrade_step E r s = (res, s1)" by (cases "upgrade_step E r s")
  have sh: "upgrade_step_shared E r s = (res, s1)"
    using upgrade_step_shared_is_upgrade_step [OF Cons.prems, of E r] st by simp
  have "seed_data (ext s1) = revision_upgrade_data (this s1)"
    using upgrade_step_shared_seed_data [OF assms, of r s] upgrade_step_this [of E r s] sh st Cons.prems
    by simp
  from Cons.IH [OF this] st sh show ?case
    by (cases res) (simp_all add: and_then_def)
qed

lemma managed_upgrade_shared_is_managed_upgrade:
  assumes "leaves_seed_data E fn" "seed_data (ext s) = revision_upgrade_data (this s)"
  shows "managed_upgrade_shared E dest s = managed_upgrade E dest s"
proof -
  obtain r1 s1 where c: "current E s = (r1, s1)" by (cases "current E s")
  have i1: "seed_data (ext s1) = revision_upgrade_data (this s1)"
    using current_seed_data [OF assms(1), of s] current_this [of E s] c assms(2) by simp
  obtain r2 s2 where h: "history E s1 = (r2, s2)" by (cases "history E s1")
  have i2: "seed_data (ext s2) = revision_upgrade_data (this s2)"
    using history_seed_data [OF assms(1), of s1] history_this [of E s1] h i1 by simp
  show ?thesis
    using c h upgrade_loop_shared_is_upgrade_loop [OF assms(1) i2]
    by (auto simp: managed_upgrade_shared_def managed_upgrade_def and_then_def from_result_def
        split: sum.splits)
qed

subsection \<open>managed_upgrade\<close>

lemma raw_command_trace:
  "trace (snd (raw_command E name args kw s)) = trace s @ [RunCommand name args kw]"
  by (simp add: raw_command_def run_command_trace)

lemma current_trace:
  "trace (snd (current E s)) = trace s @ [RunCommand ''current'' [] []]"
  using run_command_trace [of E "''current''" "[]" "[]" None s]
  by (auto simp: current_def and_then_def ret_def raise_def
      split: prod.splits sum.splits pyval.splits list.splits)



lemma managed_upgrade_resolved:
  assumes "current E s = (Inr cur, s1)" "history E s1 = (Inr h, s2)"
    "revision_range E h cur dest = Inr revs"
  shows "managed_upgrade E dest s = upgrade_loop E revs s2"
    and "this s2 = this s"
    and "trace s2 = trace s @ [RunCommand ''current'' [] [], RunCommand ''history'' [] []]"
proof -
  show "managed_upgrade E dest s = upgrade_loop E revs s2"
    using assms by (simp add: managed_upgrade_def and_then_def from_result_def)
  show "this s2 = this s"
    using current_this [of E s] history_this [of E s1] assms by simp
  show "trace s2 = trace s @ [RunCommand ''current'' [] [], RunCommand ''history'' [] []]"
    using current_trace [of E s] history_trace [of E s1] assms by simp
qed


lemma sample_current_any:
  "current sample_tool (start ctx no_db)
     = (Inr ''base'', \<lparr>this = ctx, trace = [RunCommand ''current'' [] []], ext = no_db\<rparr>)"
  by (simp add: current_def and_then_def ret_def run_command_def collaborator_call_def
      sample_tool_def sample_run_def start_def no_db_def)

lemma sample_history_any:
  "history sample_tool \<lparr>this = ctx, trace = [RunCommand ''current'' [] []], ext = no_db\<rparr>
     = (Inr sample_history,
        \<lparr>this = ctx, trace = [RunCommand ''current'' [] [], RunCommand ''history'' [] []], ext = no_db\<rparr>)"
  by (simp add: history_def and_then_def from_result_def run_command_def collaborator_call_def
      sample_tool_def sample_run_def)

lemma sample_range_base_R2:
  "revision_range sample_tool sample_history ''base'' (Some ''R2'') = Inr [''R1'', ''R2'']"
  by (simp add: sample_tool_def sample_range_def sample_history_def validate_revision_def)




subsection \<open>Without a Connection Executor\<close>

lemma upgrade_step_by_seed:
  "upgrade_step E r s =
     and_then
       (case seed (this s) r of
          None \<Rightarrow> ret PyNone
        | Some data \<Rightarrow>
            (case connection_executor (this s) of
               None \<Rightarrow> raise (AttributeError ''table_insert'')
             | Some (ConnectionExecutor eng) \<Rightarrow>
                 collaborator_call (TableInsert r data) (table_insert E eng r data)))
       (\<lambda>_. raw_command E ''upgrade'' [r] []) s"
  by (simp add: upgrade_step_def seed_def Let_def split: option.splits)

lemma raw_command_fst:
  "fst (raw_command E name args kw s) = fst (run E name args kw None (ext s))"
  by (simp add: raw_command_def run_command_def collaborator_call_def split: prod.splits)

lemma upgrade_loop_no_connection:
  assumes "connection_executor (this s) = None" "\<exists>r\<in>set revs. seed (this s) r \<noteq> None"
  shows "\<exists>e n. fst (upgrade_loop E revs s) = Inl e \<and>
           n \<le> length (takeWhile (\<lambda>r. seed (this s) r = None) revs) \<and>
           trace (snd (upgrade_loop E revs s))
             = trace s @ map upgrade_call (take n (takeWhile (\<lambda>r. seed (this s) r = None) revs)) \<and>
           ((\<forall>r x. \<exists>v x'. run E ''upgrade'' [r] [] None x = (Inr v, x')) \<longrightarrow>
              e = AttributeError ''table_insert'' \<and>
              n = length (takeWhile (\<lambda>r. seed (this s) r = None) revs))"
  using assms
proof (induction revs arbitrary: s)
  case Nil
  then show ?case by simp
next
  case (Cons r revs)
  show ?case
  proof (cases "seed (this s) r")
    case (Some data)
    with Cons.prems(1) have "upgrade_step E r s = (Inl (AttributeError ''table_insert''), s)"
      by (simp add: upgrade_step_by_seed and_then_def raise_def)
    then have "upgrade_loop E (r # revs) s = (Inl (AttributeError ''table_insert''), s)"
      by (simp add: and_then_def)
    with Some show ?thesis by simp
  next
    case None
    then have st: "upgrade_step E r s = raw_command E ''upgrade'' [r] [] s"
      by (simp add: upgrade_step_by_seed and_then_def ret_def)
    obtain res s1 where rc: "raw_command E ''upgrade'' [r] [] s = (res, s1)"
      by (cases "raw_command E ''upgrade'' [r] [] s")
    have tr: "trace s1 = trace s @ [upgrade_call r]"
      using raw_command_trace [of E "''upgrade''" "[r]" "[]" s] rc by (simp add: upgrade_call_def)
    have th: "this s1 = this s"
      using raw_command_this [of E "''upgrade''" "[r]" "[]" s] rc by simp
    show ?thesis
    proof (cases res)
      case (Inl e)
      with st rc have l: "upgrade_loop E (r # revs) s = (Inl e, s1)" by (simp add: and_then_def)
      have nf: "\<not> (\<forall>r x. \<exists>v x'. run E ''upgrade'' [r] [] None x = (Inr v, x'))"
      proof
        assume "\<forall>r x. \<exists>v x'. run E ''upgrade'' [r] [] None x = (Inr v, x')"
        then obtain v x' where "run E ''upgrade'' [r] [] None (ext s) = (Inr v, x')" by blast
        with raw_command_fst [of E "''upgrade''" "[r]" "[]" s] rc Inl show False by simp
      qed
      from l tr None have
        "fst (upgrade_loop E (r # revs) s) = Inl e \<and>
         Suc 0 \<le> length (takeWhile (\<lambda>r. seed (this s) r = None) (r # revs)) \<and>
         trace (snd (upgrade_loop E (r # revs) s))
           = trace s @ map upgrade_call (take (Suc 0) (takeWhile (\<lambda>r. seed (this s) r = None) (r # revs)))"
        by simp
      with nf show ?thesis by blast
    next
      case (Inr v)
      with st rc have l: "upgrade_loop E (r # revs) s = upgrade_loop E revs s1"
        by (simp add: and_then_def)
      have p1: "connection_executor (this s1) = None" using Cons.prems(1) th by simp
      have p2: "\<exists>r\<in>set revs. seed (this s1) r \<noteq> None" using Cons.prems(2) None th by auto
      from Cons.IH [OF p1 p2] obtain e n where
        ih: "fst (upgrade_loop E revs s1) = Inl e"
            "n \<le> length (takeWhile (\<lambda>r. seed (this s) r = None) revs)"
            "trace (snd (upgrade_loop E revs s1))
               = trace s1 @ map upgrade_call (take n (takeWhile (\<lambda>r. seed (this s) r = None) revs))"
            "(\<forall>r x. \<exists>v x'. run E ''upgrade'' [r] [] None x = (Inr v, x')) \<longrightarrow>
               e = AttributeError ''table_insert'' \<and>
               n = length (takeWhile (\<lambda>r. seed (this s) r = None) revs)"
        unfolding th by blast
      from ih l tr None show ?thesis
        by (intro exI [of _ e] exI [of _ "Suc n"]) simp
    qed
  qed
qed

text \<open>
  C9. A context made from the configuration has no Connection Executor, and
  that is the context the runner yields when it is given no engine. In such a
  context, a managed upgrade whose range holds a revision with seed data ends
  with an exception; the upgrade commands it has issued are to revisions of the
  range before the first one with seed data, so none to that revision or a later
  one, and it has made no insert. When no upgrade command fails, the exception
  is the \<open>AttributeError\<close> of the insert step.
\<close>

theorem managed_upgrade_needs_a_connection:
  "connection_executor (from_config cfg ce) = None \<and>
   (\<forall>u x1. executor_from_config E cfg (env w) = (Inr u, x1) \<longrightarrow>
      runner E cfg None body w =
        (let s0 = \<lparr>this = from_config cfg CommandExecutor, trace = calls w @ [FromConfig cfg], ext = x1\<rparr>
         in (fst (body s0), leave (snd (body s0))))) \<and>
   (\<forall>cur s1 h s2 revs.
      connection_executor (this s) = None \<longrightarrow>
      current E s = (Inr cur, s1) \<longrightarrow> history E s1 = (Inr h, s2) \<longrightarrow>
      revision_range E h cur dest = Inr revs \<longrightarrow>
      (\<exists>r\<in>set revs. seed (this s) r \<noteq> None) \<longrightarrow>
      (\<exists>e n. fst (managed_upgrade E dest s) = Inl e \<and>
         n \<le> length (takeWhile (\<lambda>r. seed (this s) r = None) revs) \<and>
         trace (snd (managed_upgrade E dest s))
           = trace s @ [RunCommand ''current'' [] [], RunCommand ''history'' [] []]
               @ map upgrade_call (take n (takeWhile (\<lambda>r. seed (this s) r = None) revs)) \<and>
         ((\<forall>r x. \<exists>v x'. run E ''upgrade'' [r] [] None x = (Inr v, x')) \<longrightarrow>
            e = AttributeError ''table_insert'' \<and>
            n = length (takeWhile (\<lambda>r. seed (this s) r = None) revs))))"
proof -
  have a: "connection_executor (from_config cfg ce) = None"
    by (simp add: from_config_def)
  have b: "runner E cfg None body w =
        (let s0 = \<lparr>this = from_config cfg CommandExecutor, trace = calls w @ [FromConfig cfg], ext = x1\<rparr>
         in (fst (body s0), leave (snd (body s0))))"
    if "executor_from_config E cfg (env w) = (Inr u, x1)" for u x1
    using that by (simp add: runner_def world_call_def enter_def Let_def split: prod.splits)
  have c: "\<exists>e n. fst (managed_upgrade E dest s) = Inl e \<and>
         n \<le> length (takeWhile (\<lambda>r. seed (this s) r = None) revs) \<and>
         trace (snd (managed_upgrade E dest s))
           = trace s @ [RunCommand ''current'' [] [], RunCommand ''history'' [] []]
               @ map upgrade_call (take n (takeWhile (\<lambda>r. seed (this s) r = None) revs)) \<and>
         ((\<forall>r x. \<exists>v x'. run E ''upgrade'' [r] [] None x = (Inr v, x')) \<longrightarrow>
            e = AttributeError ''table_insert'' \<and>
            n = length (takeWhile (\<lambda>r. seed (this s) r = None) revs))"
    if h: "connection_executor (this s) = None" "current E s = (Inr cur, s1)"
      "history E s1 = (Inr h, s2)" "revision_range E h cur dest = Inr revs"
      "\<exists>r\<in>set revs. seed (this s) r \<noteq> None" for cur s1 h s2 revs
  proof -
    note r = managed_upgrade_resolved [OF h(2) h(3) h(4)]
    from h(1) h(5) r(2) have "connection_executor (this s2) = None"
      "\<exists>r\<in>set revs. seed (this s2) r \<noteq> None" by simp_all
    from upgrade_loop_no_connection [OF this, of E] show ?thesis
      by (simp add: r)
  qed
  show ?thesis using a b c by blast
qed

lemma sample_upgrades_succeed:
  "\<forall>r x. \<exists>v x'. run sample_tool ''upgrade'' [r] [] None x = (Inr v, x')"
  by (simp add: sample_tool_def sample_run_def)

lemma bare_seed:
  "seed (from_config sample_config CommandExecutor) ''R1'' = None"
  "seed (from_config sample_config CommandExecutor) ''R2'' = Some (PList [[(''id'', ''1'')]])"
  by (simp_all add: seed_def from_config_def sample_config_def)

theorem managed_upgrade_needs_a_connection_witness:
  "connection_executor (this (start (from_config sample_config CommandExecutor) no_db)) = None \<and>
   revision_range sample_tool sample_history ''base'' (Some ''R2'') = Inr [''R1'', ''R2''] \<and>
   seed (from_config sample_config CommandExecutor) ''R2'' \<noteq> None \<and>
   fst (managed_upgrade sample_tool (Some ''R2'') (start (from_config sample_config CommandExecutor) no_db))
     = Inl (AttributeError ''table_insert'') \<and>
   trace (snd (managed_upgrade sample_tool (Some ''R2'')
                 (start (from_config sample_config CommandExecutor) no_db)))
     = [RunCommand ''current'' [] [], RunCommand ''history'' [] [], RunCommand ''upgrade'' [''R1''] []]"
proof -
  let ?c = "from_config sample_config CommandExecutor"
  let ?s = "start ?c no_db"
  let ?m = "managed_upgrade sample_tool (Some ''R2'') ?s"
  have h1: "connection_executor (this ?s) = None" by (simp add: start_def from_config_def)
  have h5: "\<exists>r\<in>set [''R1'', ''R2'']. seed (this ?s) r \<noteq> None" by (simp add: start_def bare_seed)
  have pre: "takeWhile (\<lambda>r. seed (this ?s) r = None) [''R1'', ''R2''] = [''R1'']"
    by (simp add: start_def bare_seed)
  from managed_upgrade_needs_a_connection [of sample_config CommandExecutor sample_tool
      "\<lparr>calls = [], env = no_db\<rparr>" "ret PyNone" ?s "Some ''R2''"]
  have "\<exists>e n. fst ?m = Inl e \<and>
         n \<le> length (takeWhile (\<lambda>r. seed (this ?s) r = None) [''R1'', ''R2'']) \<and>
         trace (snd ?m)
           = trace ?s @ [RunCommand ''current'' [] [], RunCommand ''history'' [] []]
               @ map upgrade_call (take n (takeWhile (\<lambda>r. seed (this ?s) r = None) [''R1'', ''R2''])) \<and>
         ((\<forall>r x. \<exists>v x'. run sample_tool ''upgrade'' [r] [] None x = (Inr v, x')) \<longrightarrow>
            e = AttributeError ''table_insert'' \<and>
            n = length (takeWhile (\<lambda>r. seed (this ?s) r = None) [''R1'', ''R2'']))"
    using h1 h5 sample_current_any [of ?c] sample_history_any [of ?c] sample_range_base_R2
    by blast
  then obtain e n where
    "fst ?m = Inl e"
    "trace (snd ?m) = trace ?s @ [RunCommand ''current'' [] [], RunCommand ''history'' [] []]
               @ map upgrade_call (take n [''R1''])"
    "e = AttributeError ''table_insert''" "n = length [''R1'']"
    using sample_upgrades_succeed unfolding pre by blast
  then show ?thesis
    using h1 sample_range_base_R2 by (simp add: bare_seed upgrade_call_def start_def)
qed

subsection \<open>Payloads that do not count\<close>

lemma alike_and_then:
  assumes m: "\<And>s t. alike s t \<Longrightarrow> fst (m s) = fst (m t) \<and> alike (snd (m s)) (snd (m t))"
    and f: "\<And>v s t. alike s t \<Longrightarrow> fst (f v s) = fst (f v t) \<and> alike (snd (f v s)) (snd (f v t))"
    and st: "alike s t"
  shows "fst (and_then m f s) = fst (and_then m f t) \<and>
         alike (snd (and_then m f s)) (snd (and_then m f t))"
proof -
  obtain r s' where ms: "m s = (r, s')" by (cases "m s")
  obtain r' t' where mt: "m t = (r', t')" by (cases "m t")
  from m [OF st] ms mt have eq: "r' = r" "alike s' t'" by simp_all
  show ?thesis
  proof (cases r)
    case (Inl e)
    with ms mt eq show ?thesis by (simp add: and_then_def)
  next
    case (Inr v)
    with ms mt eq f [OF eq(2), of v] show ?thesis by (simp add: and_then_def)
  qed
qed

lemma alike_collaborator_call:
  "alike s t \<Longrightarrow> fst (collaborator_call ev f s) = fst (collaborator_call ev f t) \<and>
     alike (snd (collaborator_call ev f s)) (snd (collaborator_call ev f t))"
  by (simp add: alike_def collaborator_call_def split: prod.splits)

lemma alike_raw_command:
  "alike s t \<Longrightarrow> fst (raw_command E name args kw s) = fst (raw_command E name args kw t) \<and>
     alike (snd (raw_command E name args kw s)) (snd (raw_command E name args kw t))"
  by (simp add: raw_command_def run_command_def alike_collaborator_call)

lemma alike_pure:
  "alike s t \<Longrightarrow> fst (ret v s) = fst (ret v t) \<and> alike (snd (ret v s)) (snd (ret v t))"
  "alike s t \<Longrightarrow> fst (raise e s) = fst (raise e t) \<and> alike (snd (raise e s)) (snd (raise e t))"
  "alike s t \<Longrightarrow> fst (from_result r s) = fst (from_result r t) \<and>
     alike (snd (from_result r s)) (snd (from_result r t))"
  by (simp_all add: ret_def raise_def from_result_def)

lemma alike_current:
  "alike s t \<Longrightarrow> fst (current E s) = fst (current E t) \<and> alike (snd (current E s)) (snd (current E t))"
  unfolding current_def
  by (rule alike_and_then)
     (simp_all add: run_command_def alike_collaborator_call alike_pure split: pyval.splits list.splits)

lemma alike_history:
  "alike s t \<Longrightarrow> fst (history E s) = fst (history E t) \<and> alike (snd (history E s)) (snd (history E t))"
  unfolding history_def
  by (rule alike_and_then)
     (simp_all add: run_command_def alike_collaborator_call alike_pure split: pyval.splits)

lemma alike_upgrade_step:
  assumes "alike s t"
  shows "fst (upgrade_step E r s) = fst (upgrade_step E r t) \<and>
     alike (snd (upgrade_step E r s)) (snd (upgrade_step E r t))"
proof -
  from assms have eq: "seed (this t) r = seed (this s) r"
    "connection_executor (this t) = connection_executor (this s)"
    by (simp_all add: alike_def)
  show ?thesis
    unfolding upgrade_step_by_seed eq
    by (rule alike_and_then [OF _ _ assms])
       (simp_all add: alike_raw_command alike_collaborator_call alike_pure
          split: option.splits connection_executor.splits)
qed

lemma alike_upgrade_loop:
  "alike s t \<Longrightarrow> fst (upgrade_loop E revs s) = fst (upgrade_loop E revs t) \<and>
     alike (snd (upgrade_loop E revs s)) (snd (upgrade_loop E revs t))"
proof (induction revs arbitrary: s t)
  case Nil
  then show ?case by (simp add: alike_pure)
next
  case (Cons r revs)
  show ?case
    unfolding upgrade_loop.simps
    by (rule alike_and_then [OF _ _ Cons.prems]) (simp_all add: alike_upgrade_step Cons.IH)
qed

lemma alike_managed_upgrade:
  assumes "alike s t"
  shows "fst (managed_upgrade E dest s) = fst (managed_upgrade E dest t) \<and>
     alike (snd (managed_upgrade E dest s)) (snd (managed_upgrade E dest t))"
  unfolding managed_upgrade_def
  by (intro alike_and_then assms)
     (simp_all add: alike_current alike_history alike_pure alike_upgrade_loop)

text \<open>
  C10. For a revision whose registered payload is empty, one turn of the loop
  is the "upgrade" command to that revision and nothing else, and the whole
  managed upgrade has the outcome, makes the calls and leaves the world it
  would with no payload registered for that revision.
\<close>

theorem managed_upgrade_empty_payload_as_absent:
  assumes "revision_upgrade_data (this s) r = Some data" "\<not> truthy data"
  shows "upgrade_step E r s = raw_command E ''upgrade'' [r] [] s \<and>
    (let t = s\<lparr>this := (this s)\<lparr>revision_upgrade_data := (revision_upgrade_data (this s))(r := None)\<rparr>\<rparr>
     in fst (managed_upgrade E dest s) = fst (managed_upgrade E dest t) \<and>
        trace (snd (managed_upgrade E dest s)) = trace (snd (managed_upgrade E dest t)) \<and>
        ext (snd (managed_upgrade E dest s)) = ext (snd (managed_upgrade E dest t)))"
proof -
  let ?t = "s\<lparr>this := (this s)\<lparr>revision_upgrade_data := (revision_upgrade_data (this s))(r := None)\<rparr>\<rparr>"
  from assms have "seed (this s) r = None" by (simp add: seed_def)
  then have step: "upgrade_step E r s = raw_command E ''upgrade'' [r] [] s"
    by (simp add: upgrade_step_by_seed and_then_def ret_def)
  have "seed (this s) = seed (this ?t)"
    using assms by (auto simp: seed_def fun_eq_iff)
  then have "alike s ?t" by (simp add: alike_def)
  from alike_managed_upgrade [OF this, of E dest] step show ?thesis
    by (simp add: alike_def Let_def)
qed

theorem managed_upgrade_empty_payload_witness:
  "revision_upgrade_data (this (start sample_context no_db)) ''R1'' = Some (PList []) \<and>
   \<not> truthy (PList []) \<and>
   upgrade_step sample_tool ''R1'' (start sample_context no_db)
     = (Inr PyNone, \<lparr>this = sample_context, trace = [RunCommand ''upgrade'' [''R1''] []],
                     ext = at_R1\<rparr>)"
proof -
  have a: "revision_upgrade_data (this (start sample_context no_db)) ''R1'' = Some (PList [])"
    by (simp add: start_def sample_context_def)
  have b: "\<not> truthy (PList [])" by simp
  have c: "raw_command sample_tool ''upgrade'' [''R1''] [] (start sample_context no_db)
     = (Inr PyNone, \<lparr>this = sample_context, trace = [RunCommand ''upgrade'' [''R1''] []],
                     ext = at_R1\<rparr>)"
    by (simp add: raw_command_def run_command_def collaborator_call_def sample_tool_def
        sample_run_def start_def no_db_def at_R1_def)
  from managed_upgrade_empty_payload_as_absent [OF a b, of sample_tool "Some ''R2''"] c a b
  show ?thesis by simp
qed

end
